theory Spec2Isabelle
  imports Main "HOL-Library.Sublist"
begin

section \<open>RobotKing: status normalisation and command dispatch\<close>

text \<open>
  A shallow embedding of \<^verbatim>\<open>wideq/devices/robotking.py\<close>. The module defines two
  classes, \<^verbatim>\<open>RobotKingStatus\<close> (the status snapshot) and \<^verbatim>\<open>RobotKingDevice\<close> (the
  controller). Both inherit from base classes (\<^verbatim>\<open>DeviceStatus\<close>, \<^verbatim>\<open>Device\<close>) whose
  code lives in other modules; whatever the two classes call on their bases is
  taken as a parameter (the record \<open>collab\<close> below) or, where the specification
  describes it, modelled from the specification and marked as such.

  Python mutates the objects in place. Here every method takes the snapshot (or the
  controller) and returns its result together with the updated snapshot (or
  controller).
\<close>

subsection \<open>Vocabulary tables\<close>

definition STATE_ROBOT_KING_POWER_OFF :: string where
  "STATE_ROBOT_KING_POWER_OFF = ''STATE_POWER_OFF''"

definition STATE_ROBOT_KING_END :: "string list" where
  "STATE_ROBOT_KING_END = [''STATE_END'', ''STATE_COMPLETE'']"

definition STATE_ROBOT_KING_ERROR_OFF :: string where
  "STATE_ROBOT_KING_ERROR_OFF = ''OFF''"

definition STATE_ROBOT_KING_ERROR_NO_ERROR :: "string list" where
  "STATE_ROBOT_KING_ERROR_NO_ERROR =
     [''ERROR_NOERROR'', ''ERROR_NOERROR_TITLE'', ''No Error'', ''No_Error'']"

definition POWER_STATUS_KEY :: "string list" where
  "POWER_STATUS_KEY = [''State'', ''state'']"

text \<open>
  \<^verbatim>\<open>CMD_WAKE_UP = [["Config", "Wakeup"], ["Set", "Wakeup"], ["WakeUp", None]]\<close>:
  the second component of an entry may be \<^verbatim>\<open>None\<close>.
\<close>

definition CMD_WAKE_UP :: "(string \<times> string option) list" where
  "CMD_WAKE_UP =
     [(''Config'', Some ''Wakeup''), (''Set'', Some ''Wakeup''), (''WakeUp'', None)]"

subsection \<open>Python strings\<close>

text \<open>
  \<^verbatim>\<open>sub in s\<close> on two Python strings: \<open>sub\<close> occurs in \<open>s\<close> as a contiguous
  substring.
\<close>

fun str_in :: "string \<Rightarrow> string \<Rightarrow> bool" where
  "str_in sub [] = (sub = [])"
| "str_in sub (c # cs) = (prefix sub (c # cs) \<or> str_in sub cs)"

text \<open>
  Truthiness of a value that is \<^verbatim>\<open>None\<close> or a string: \<^verbatim>\<open>None\<close> and the empty
  string are falsy.
\<close>

definition truthy :: "string option \<Rightarrow> bool" where
  "truthy v = (case v of None \<Rightarrow> False | Some x \<Rightarrow> x \<noteq> [])"

subsection \<open>What the base classes and the device metadata provide\<close>

text \<open>
  A raw payload is a Python dict from string keys to raw values; the type of the raw
  values is left open. The snapshot's \<^verbatim>\<open>_data\<close> is a payload or \<^verbatim>\<open>None\<close>.
\<close>

type_synonym 'v payload = "(string \<times> 'v) list"

datatype error = InvalidDeviceStatus | CommandKeysUnavailable | CollaboratorError string

text \<open>
  The inherited methods and the constants imported from modules outside this file, as
  parameters. Nothing is assumed about them unless a theorem says so.
  \<^item> \<open>lookup_enum d keys\<close>: \<^verbatim>\<open>DeviceStatus.lookup_enum(keys)\<close> on the payload \<open>d\<close>;
  \<^item> \<open>lookup_reference d keys ref_key\<close>: \<^verbatim>\<open>DeviceStatus.lookup_reference(keys, ref_key=...)\<close>;
  \<^item> \<open>super_update_status d key value\<close>: \<^verbatim>\<open>DeviceStatus.update_status(key, value)\<close>, giving
    the change flag and the payload store after the write;
  \<^item> \<open>StateOptions_NONE\<close>: the constant \<^verbatim>\<open>StateOptions.NONE\<close>;
  \<^item> \<open>cmd_supported group command\<close>: whether the device's capability metadata marks the
    command pair as supported;
  \<^item> \<open>device_set ctrl cmd value\<close>: the outcome of \<^verbatim>\<open>await Device.set(ctrl, cmd, value=value)\<close>,
    \<open>None\<close> when the call returns and \<open>Some e\<close> when it raises \<open>e\<close>;
  \<^item> \<open>get_runstate_key name\<close>: \<^verbatim>\<open>Device._get_runstate_key(name)\<close>.
\<close>

record ('k, 'v) collab =
  lookup_enum :: "'v payload option \<Rightarrow> string list \<Rightarrow> string option"
  lookup_reference :: "'v payload option \<Rightarrow> string list \<Rightarrow> string \<Rightarrow> string option"
  super_update_status :: "'v payload option \<Rightarrow> 'k \<Rightarrow> 'v \<Rightarrow> bool \<times> 'v payload option"
  StateOptions_NONE :: string
  cmd_supported :: "string \<Rightarrow> string option \<Rightarrow> bool"
  device_set :: "string \<Rightarrow> string option \<Rightarrow> string option \<Rightarrow> error option"
  get_runstate_key :: "string \<Rightarrow> 'v"

subsection \<open>The status snapshot: \<^verbatim>\<open>RobotKingStatus\<close>\<close>

text \<open>
  The calls a snapshot makes to the inherited lookups are logged, in order, so that a
  statement can count them.
\<close>

datatype lookup_call = LookupEnum "string list" | LookupReference "string list" string

text \<open>
  \<open>run_state_memo\<close> is the attribute \<^verbatim>\<open>_run_state\<close> and \<open>error_memo\<close> the attribute
  \<^verbatim>\<open>_error\<close> (the names \<open>run_state\<close> and \<open>error_msg\<close> are the public properties).
  \<open>device_features\<close> is the feature side-channel written by \<^verbatim>\<open>_update_feature\<close>.
\<close>

record 'v RobotKingStatus =
  data :: "'v payload option"
  run_state_memo :: "string option"
  error_memo :: "string option"
  device_features :: "string \<rightharpoonup> string"
  lookups :: "lookup_call list"

text \<open>
  \<^verbatim>\<open>RobotKingStatus.__init__(device, data=None)\<close>: both memos start as \<^verbatim>\<open>None\<close>.
  Modelled from the spec: the inherited constructor stores the payload; the feature
  side-channel starts empty.
\<close>

definition RobotKingStatus_init :: "'v payload option \<Rightarrow> 'v RobotKingStatus" where
  "RobotKingStatus_init d =
     \<lparr>data = d, run_state_memo = None, error_memo = None,
      device_features = Map.empty, lookups = []\<rparr>"

text \<open>
  Modelled from the spec: \<^verbatim>\<open>DeviceStatus._update_feature(key, value)\<close> is not in this
  file; the specification has it record the value under the feature key and return
  it.
\<close>

definition update_feature ::
  "string \<Rightarrow> string \<Rightarrow> 'v RobotKingStatus \<Rightarrow> string \<times> 'v RobotKingStatus" where
  "update_feature key v s = (v, s\<lparr>device_features := (device_features s)(key \<mapsto> v)\<rparr>)"

text \<open>\<^verbatim>\<open>_get_run_state\<close>: the memo when it is truthy, a lookup otherwise.\<close>

definition get_run_state ::
  "('k, 'v) collab \<Rightarrow> 'v RobotKingStatus \<Rightarrow> string \<times> 'v RobotKingStatus" where
  "get_run_state c s =
     (if \<not> truthy (run_state_memo s) then
        (let state = lookup_enum c (data s) [''State'', ''state''];
             s1 = s\<lparr>lookups := lookups s @ [LookupEnum [''State'', ''state'']]\<rparr>;
             r = (if \<not> truthy state then STATE_ROBOT_KING_POWER_OFF
                  else (case state of Some x \<Rightarrow> x | None \<Rightarrow> []))
         in (r, s1\<lparr>run_state_memo := Some r\<rparr>))
      else ((case run_state_memo s of Some x \<Rightarrow> x | None \<Rightarrow> []), s))"

text \<open>\<^verbatim>\<open>_get_error\<close>: the memo when it is truthy, a reference lookup otherwise.\<close>

definition get_error ::
  "('k, 'v) collab \<Rightarrow> 'v RobotKingStatus \<Rightarrow> string \<times> 'v RobotKingStatus" where
  "get_error c s =
     (if \<not> truthy (error_memo s) then
        (let err = lookup_reference c (data s) [''Error'', ''error''] ''title'';
             s1 = s\<lparr>lookups := lookups s @ [LookupReference [''Error'', ''error''] ''title'']\<rparr>;
             r = (if \<not> truthy err then STATE_ROBOT_KING_ERROR_OFF
                  else (case err of Some x \<Rightarrow> x | None \<Rightarrow> []))
         in (r, s1\<lparr>error_memo := Some r\<rparr>))
      else ((case error_memo s of Some x \<Rightarrow> x | None \<Rightarrow> []), s))"

text \<open>
  \<^verbatim>\<open>update_status(key, value)\<close>: the inherited write; when it reports a change the
  run-state memo is reset to \<^verbatim>\<open>None\<close>.
\<close>

definition update_status ::
  "('k, 'v) collab \<Rightarrow> 'v RobotKingStatus \<Rightarrow> 'k \<Rightarrow> 'v \<Rightarrow> bool \<times> 'v RobotKingStatus" where
  "update_status c s key val =
     (let (changed, d) = super_update_status c (data s) key val;
          s1 = s\<lparr>data := d\<rparr>
      in if \<not> changed then (False, s1)
         else (True, s1\<lparr>run_state_memo := None\<rparr>))"

definition is_on :: "('k, 'v) collab \<Rightarrow> 'v RobotKingStatus \<Rightarrow> bool \<times> 'v RobotKingStatus" where
  "is_on c s =
     (let (run_state, s1) = get_run_state c s
      in (\<not> str_in STATE_ROBOT_KING_POWER_OFF run_state, s1))"

definition is_run_completed ::
  "('k, 'v) collab \<Rightarrow> 'v RobotKingStatus \<Rightarrow> bool \<times> 'v RobotKingStatus" where
  "is_run_completed c s =
     (let (run_state, s1) = get_run_state c s
      in if list_ex (\<lambda>state. str_in state run_state) STATE_ROBOT_KING_END
            \<or> str_in STATE_ROBOT_KING_POWER_OFF run_state
         then (True, s1) else (False, s1))"

definition is_error :: "('k, 'v) collab \<Rightarrow> 'v RobotKingStatus \<Rightarrow> bool \<times> 'v RobotKingStatus" where
  "is_error c s =
     (let (on, s1) = is_on c s
      in if \<not> on then (False, s1)
         else (let (err, s2) = get_error c s1
               in if err \<in> set STATE_ROBOT_KING_ERROR_NO_ERROR
                     \<or> err = STATE_ROBOT_KING_ERROR_OFF
                  then (False, s2) else (True, s2)))"

definition run_state :: "('k, 'v) collab \<Rightarrow> 'v RobotKingStatus \<Rightarrow> string \<times> 'v RobotKingStatus" where
  "run_state c s =
     (let (rs, s1) = get_run_state c s;
          rs' = (if str_in STATE_ROBOT_KING_POWER_OFF rs then StateOptions_NONE c else rs)
      in update_feature ''RUN_STATE'' rs' s1)"

definition error_msg :: "('k, 'v) collab \<Rightarrow> 'v RobotKingStatus \<Rightarrow> string \<times> 'v RobotKingStatus" where
  "error_msg c s =
     (let (err, s1) = is_error c s
      in if \<not> err then update_feature ''ERROR_MSG'' (StateOptions_NONE c) s1
         else (let (e, s2) = get_error c s1
               in update_feature ''ERROR_MSG'' e s2))"

text \<open>\<^verbatim>\<open>_update_features\<close>: both properties are read, the values are dropped.\<close>

definition update_features :: "('k, 'v) collab \<Rightarrow> 'v RobotKingStatus \<Rightarrow> 'v RobotKingStatus" where
  "update_features c s = snd (error_msg c (snd (run_state c s)))"

subsection \<open>The controller: \<^verbatim>\<open>RobotKingDevice\<close>\<close>

text \<open>
  A dispatched command is the triple handed to \<^verbatim>\<open>Device.set\<close>: control key, command
  key and value. \<open>sent\<close> logs every call of \<^verbatim>\<open>Device.set\<close>, in order, whether the call
  returns or raises. \<open>status\<close> is the attribute \<^verbatim>\<open>_status\<close> and \<open>stand_by\<close> the
  attribute \<^verbatim>\<open>_stand_by\<close>.
\<close>

type_synonym command = "string \<times> string option \<times> string option"

record 'v RobotKingDevice =
  status :: "'v RobotKingStatus"
  stand_by :: bool
  sent :: "command list"

text \<open>\<^verbatim>\<open>reset_status\<close>: a snapshot without payload replaces the stored one.\<close>

definition reset_status ::
  "'v RobotKingDevice \<Rightarrow> 'v RobotKingStatus \<times> 'v RobotKingDevice" where
  "reset_status dev =
     (let st = RobotKingStatus_init None in (st, dev\<lparr>status := st\<rparr>))"

text \<open>\<^verbatim>\<open>not res\<close> on what the poll collaborator returned: \<^verbatim>\<open>None\<close> or an empty dict.\<close>

definition not_res :: "'v payload option \<Rightarrow> bool" where
  "not_res res = (case res of None \<Rightarrow> True | Some d \<Rightarrow> d = [])"

text \<open>
  \<^verbatim>\<open>poll\<close>; \<open>res\<close> is the value that \<^verbatim>\<open>await self._device_poll(...)\<close> produced. The two
  log lines have no effect on the state.
\<close>

definition poll ::
  "'v RobotKingDevice \<Rightarrow> 'v payload option \<Rightarrow> 'v RobotKingStatus option \<times> 'v RobotKingDevice" where
  "poll dev res =
     (if not_res res then (None, dev)
      else (let st = RobotKingStatus_init res in (Some st, dev\<lparr>status := st\<rparr>)))"

text \<open>
  Modelled from the spec: \<^verbatim>\<open>Device._get_cmd_keys\<close> is not in this file. The
  specification has it scan the ordered candidate pairs and select the first pair
  that the capability metadata marks as supported; the command is issued with no
  payload value. The specification does not say what happens when no pair is
  supported: here no keys are returned.
\<close>

definition get_cmd_keys ::
  "('k, 'v) collab \<Rightarrow> (string \<times> string option) list \<Rightarrow> command option" where
  "get_cmd_keys c key_list =
     (case find (\<lambda>(ctrl, cmd). cmd_supported c ctrl cmd) key_list of
        None \<Rightarrow> None
      | Some (ctrl, cmd) \<Rightarrow> Some (ctrl, cmd, None))"

text \<open>
  Modelled from the spec: \<^verbatim>\<open>Device._update_status(key, value)\<close> is not in this file.
  The specification has it update the field of the stored snapshot, through the
  snapshot's own \<^verbatim>\<open>update_status\<close>.
\<close>

definition Device_update_status ::
  "('k, 'v) collab \<Rightarrow> 'v RobotKingDevice \<Rightarrow> 'k \<Rightarrow> 'v \<Rightarrow> 'v RobotKingDevice" where
  "Device_update_status c dev key val =
     dev\<lparr>status := snd (update_status c (status dev) key val)\<rparr>"

text \<open>
  \<^verbatim>\<open>wake_up\<close>. The result is \<open>Inl e\<close> when the method raises \<open>e\<close> and \<open>Inr ()\<close> when
  it returns; the controller after the call comes with it in both cases. Keys that
  are not available raise before the dispatch (\<^verbatim>\<open>keys[0]\<close> on no keys).
\<close>

definition wake_up ::
  "(string list, 'v) collab \<Rightarrow> 'v RobotKingDevice \<Rightarrow> (error + unit) \<times> 'v RobotKingDevice" where
  "wake_up c dev =
     (if \<not> stand_by dev then (Inl InvalidDeviceStatus, dev)
      else (case get_cmd_keys c CMD_WAKE_UP of
              None \<Rightarrow> (Inl CommandKeysUnavailable, dev)
            | Some (k0, k1, k2) \<Rightarrow>
                (let dev1 = dev\<lparr>sent := sent dev @ [(k0, k1, k2)]\<rparr>
                 in (case device_set c k0 k1 k2 of
                       Some e \<Rightarrow> (Inl e, dev1)
                     | None \<Rightarrow>
                         (let dev2 = dev1\<lparr>stand_by := False\<rparr>
                          in (Inr (),
                              Device_update_status c dev2 POWER_STATUS_KEY
                                (get_runstate_key c ''STATE_INITIAL'')))))))"

subsection \<open>Derived notions used in the statements\<close>


subsection \<open>A concrete device for evaluating the statements\<close>

text \<open>
  A payload with strings as raw values. The lookups return the raw value under the
  first alias that is present (an identity enumeration table), the write stores the
  value under the first alias and reports whether the stored value changed, the NONE
  sentinel is \<open>''-''\<close>, only \<open>Set/Wakeup\<close> is supported, and commands succeed.
\<close>

fun first_present :: "string payload \<Rightarrow> string list \<Rightarrow> string option" where
  "first_present p [] = None"
| "first_present p (k # ks) =
     (case map_of p k of Some v \<Rightarrow> Some v | None \<Rightarrow> first_present p ks)"

fun store_put :: "string \<Rightarrow> string \<Rightarrow> string payload \<Rightarrow> string payload" where
  "store_put k v [] = [(k, v)]"
| "store_put k v ((k', v') # p) =
     (if k = k' then (k, v) # p else (k', v') # store_put k v p)"

definition example_write ::
  "string payload option \<Rightarrow> string list \<Rightarrow> string \<Rightarrow> bool \<times> string payload option" where
  "example_write d keys v =
     (case keys of
        [] \<Rightarrow> (False, d)
      | k # _ \<Rightarrow>
          (case d of
             None \<Rightarrow> (True, Some [(k, v)])
           | Some p \<Rightarrow> if map_of p k = Some v then (False, Some p)
                       else (True, Some (store_put k v p))))"

definition example_collab :: "(string list, string) collab" where
  "example_collab =
     \<lparr>lookup_enum = (\<lambda>d keys. case d of None \<Rightarrow> None | Some p \<Rightarrow> first_present p keys),
      lookup_reference = (\<lambda>d keys ref_key. case d of None \<Rightarrow> None | Some p \<Rightarrow> first_present p keys),
      super_update_status = example_write,
      StateOptions_NONE = ''-'',
      cmd_supported = (\<lambda>ctrl cmd. ctrl = ''Set'' \<and> cmd = Some ''Wakeup''),
      device_set = (\<lambda>ctrl cmd val. None),
      get_runstate_key = (\<lambda>name. name)\<rparr>"

text \<open>The same device with a dispatch collaborator that rejects every command.\<close>

definition rejecting_collab :: "(string list, string) collab" where
  "rejecting_collab =
     example_collab\<lparr>device_set := (\<lambda>ctrl cmd val. Some (CollaboratorError ''rejected''))\<rparr>"

text \<open>
  The same device with an inherited write that only overwrites a key the payload
  already holds: on a snapshot without payload, or without the key, nothing is stored
  and no change is reported.
\<close>

definition skipping_write ::
  "string payload option \<Rightarrow> string list \<Rightarrow> string \<Rightarrow> bool \<times> string payload option" where
  "skipping_write d keys v =
     (case keys of
        [] \<Rightarrow> (False, d)
      | k # _ \<Rightarrow>
          (case d of
             None \<Rightarrow> (False, None)
           | Some p \<Rightarrow> if map_of p k = None then (False, Some p)
                       else (True, Some (store_put k v p))))"

definition skipping_collab :: "(string list, string) collab" where
  "skipping_collab = example_collab\<lparr>super_update_status := skipping_write\<rparr>"

text \<open>
  A snapshot of a running device that reports an error, after \<^verbatim>\<open>error_msg\<close> has been
  read once (so that both memos are resolved).
\<close>

definition running_with_error :: "string RobotKingStatus" where
  "running_with_error =
     snd (error_msg example_collab
            (RobotKingStatus_init
               (Some [(''State'', ''STATE_RUNNING''), (''Error'', ''ERROR_BRUSH'')])))"

definition example_device :: "string payload option \<Rightarrow> bool \<Rightarrow> string RobotKingDevice" where
  "example_device d sb = \<lparr>status = RobotKingStatus_init d, stand_by = sb, sent = []\<rparr>"


section \<open>Properties\<close>

subsection \<open>Substring containment\<close>

lemma str_in_iff: "str_in sub s \<longleftrightarrow> (\<exists>p q. s = p @ sub @ q)"
proof (induction s)
  case Nil
  then show ?case by auto
next
  case (Cons c cs)
  show ?case
  proof
    assume "str_in sub (c # cs)"
    then consider "prefix sub (c # cs)" | "str_in sub cs" by auto
    then show "\<exists>p q. c # cs = p @ sub @ q"
    proof cases
      case 1
      then obtain q where "c # cs = sub @ q" by (auto simp: prefix_def)
      then have "c # cs = [] @ sub @ q" by simp
      then show ?thesis by blast
    next
      case 2
      with Cons.IH obtain p q where "cs = p @ sub @ q" by blast
      then have "c # cs = (c # p) @ sub @ q" by simp
      then show ?thesis by blast
    qed
  next
    assume "\<exists>p q. c # cs = p @ sub @ q"
    then obtain p q where pq: "c # cs = p @ sub @ q" by blast
    show "str_in sub (c # cs)"
    proof (cases p)
      case Nil
      with pq have "prefix sub (c # cs)" by (simp add: prefix_def)
      then show ?thesis by simp
    next
      case (Cons a p')
      with pq have "cs = p' @ sub @ q" by simp
      with Cons.IH have "str_in sub cs" by blast
      then show ?thesis by simp
    qed
  qed
qed

lemma str_in_sublist: "str_in sub s \<longleftrightarrow> sublist sub s"
  by (simp add: str_in_iff sublist_def)

lemma str_in_self: "str_in s s"
proof -
  have "s = [] @ s @ []" by simp
  then show ?thesis unfolding str_in_iff by blast
qed

subsection \<open>The two memoised getters\<close>

lemma get_run_state_nonempty: "fst (get_run_state c s) \<noteq> []"
  by (auto simp: get_run_state_def truthy_def Let_def STATE_ROBOT_KING_POWER_OFF_def
           split: option.splits)

lemma get_run_state_memo:
  "run_state_memo (snd (get_run_state c s)) = Some (fst (get_run_state c s))"
  by (auto simp: get_run_state_def truthy_def Let_def split: option.splits)

lemma get_run_state_frame:
  "data (snd (get_run_state c s)) = data s"
  "error_memo (snd (get_run_state c s)) = error_memo s"
  "device_features (snd (get_run_state c s)) = device_features s"
  by (auto simp: get_run_state_def Let_def)

lemma get_run_state_lookups:
  "lookups (snd (get_run_state c s)) =
     (if truthy (run_state_memo s) then lookups s
      else lookups s @ [LookupEnum [''State'', ''state'']])"
  by (simp add: get_run_state_def Let_def)

lemma get_run_state_hit:
  "run_state_memo s = Some r \<Longrightarrow> r \<noteq> [] \<Longrightarrow> get_run_state c s = (r, s)"
  by (simp add: get_run_state_def truthy_def)

lemma get_run_state_again:
  "get_run_state c (snd (get_run_state c s)) = (fst (get_run_state c s), snd (get_run_state c s))"
  by (rule get_run_state_hit) (simp_all add: get_run_state_memo get_run_state_nonempty)

lemma get_run_state_cong:
  "run_state_memo s' = run_state_memo s \<Longrightarrow> data s' = data s \<Longrightarrow>
     fst (get_run_state c s') = fst (get_run_state c s)"
  by (simp add: get_run_state_def Let_def)

lemma get_error_nonempty: "fst (get_error c s) \<noteq> []"
  by (auto simp: get_error_def truthy_def Let_def STATE_ROBOT_KING_ERROR_OFF_def
           split: option.splits)

lemma get_error_memo: "error_memo (snd (get_error c s)) = Some (fst (get_error c s))"
  by (auto simp: get_error_def truthy_def Let_def split: option.splits)

lemma get_error_frame:
  "data (snd (get_error c s)) = data s"
  "run_state_memo (snd (get_error c s)) = run_state_memo s"
  "device_features (snd (get_error c s)) = device_features s"
  by (auto simp: get_error_def Let_def)

lemma get_error_lookups:
  "lookups (snd (get_error c s)) =
     (if truthy (error_memo s) then lookups s
      else lookups s @ [LookupReference [''Error'', ''error''] ''title''])"
  by (simp add: get_error_def Let_def)

lemma get_error_hit:
  "error_memo s = Some e \<Longrightarrow> e \<noteq> [] \<Longrightarrow> get_error c s = (e, s)"
  by (simp add: get_error_def truthy_def)

lemma get_error_again:
  "get_error c (snd (get_error c s)) = (fst (get_error c s), snd (get_error c s))"
  by (rule get_error_hit) (simp_all add: get_error_memo get_error_nonempty)

lemma get_error_cong:
  "error_memo s' = error_memo s \<Longrightarrow> data s' = data s \<Longrightarrow>
     fst (get_error c s') = fst (get_error c s)"
  by (simp add: get_error_def Let_def)

subsection \<open>The derived booleans\<close>

lemma is_on_fst:
  "fst (is_on c s) = (\<not> str_in STATE_ROBOT_KING_POWER_OFF (fst (get_run_state c s)))"
  by (simp add: is_on_def split_beta)

lemma is_on_snd: "snd (is_on c s) = snd (get_run_state c s)"
  by (simp add: is_on_def split_beta)

lemma is_run_completed_fst:
  "fst (is_run_completed c s) =
     ((\<exists>t \<in> set STATE_ROBOT_KING_END. str_in t (fst (get_run_state c s)))
      \<or> str_in STATE_ROBOT_KING_POWER_OFF (fst (get_run_state c s)))"
  by (simp add: is_run_completed_def split_beta list_ex_iff)

lemma is_error_fst:
  "fst (is_error c s) =
     (fst (is_on c s) \<and>
      \<not> (fst (get_error c s) \<in> set STATE_ROBOT_KING_ERROR_NO_ERROR
         \<or> fst (get_error c s) = STATE_ROBOT_KING_ERROR_OFF))"
proof -
  have e: "fst (get_error c (snd (is_on c s))) = fst (get_error c s)"
    by (rule get_error_cong) (simp_all add: is_on_snd get_run_state_frame)
  show ?thesis
    by (auto simp: is_error_def split_beta e)
qed

lemma is_error_snd:
  "snd (is_error c s) =
     (if fst (is_on c s) then snd (get_error c (snd (get_run_state c s)))
      else snd (get_run_state c s))"
  by (simp add: is_error_def split_beta is_on_snd)

text \<open>Facts for evaluating the definitions on the concrete device.\<close>

lemmas vocabulary_defs =
  STATE_ROBOT_KING_POWER_OFF_def STATE_ROBOT_KING_END_def STATE_ROBOT_KING_ERROR_OFF_def
  STATE_ROBOT_KING_ERROR_NO_ERROR_def POWER_STATUS_KEY_def CMD_WAKE_UP_def

lemmas snapshot_defs =
  RobotKingStatus_init_def update_feature_def get_run_state_def get_error_def
  update_status_def is_on_def is_run_completed_def is_error_def run_state_def error_msg_def
  truthy_def Let_def split_beta

lemmas example_defs =
  example_collab_def example_write_def rejecting_collab_def skipping_collab_def skipping_write_def

subsection \<open>Power precedes error evaluation\<close>

text \<open>
  Claim C1. For every snapshot, \<open>is_error\<close> is false whenever \<open>is_on\<close> is false; and when
  \<open>is_on\<close> is true, \<open>is_error\<close> is false exactly when the resolved error string is one of
  the NO-ERROR sentinels or equals the OFF sentinel, and true for every other error
  string.
\<close>

theorem is_error_power_precedes:
  "(\<not> fst (is_on c s) \<longrightarrow> \<not> fst (is_error c s)) \<and>
   (fst (is_on c s) \<longrightarrow>
      (\<not> fst (is_error c s) \<longleftrightarrow>
         fst (get_error c s) \<in> set STATE_ROBOT_KING_ERROR_NO_ERROR
         \<or> fst (get_error c s) = STATE_ROBOT_KING_ERROR_OFF))"
  by (simp add: is_error_fst)

theorem is_error_power_precedes_witness:
  "fst (is_on example_collab
         (RobotKingStatus_init (Some [(''State'', ''STATE_RUNNING''), (''Error'', ''ERROR_BRUSH'')])))
   \<and> fst (get_error example_collab
         (RobotKingStatus_init (Some [(''State'', ''STATE_RUNNING''), (''Error'', ''ERROR_BRUSH'')])))
       = ''ERROR_BRUSH''
   \<and> fst (is_error example_collab
         (RobotKingStatus_init (Some [(''State'', ''STATE_RUNNING''), (''Error'', ''ERROR_BRUSH'')])))
   \<and> \<not> fst (is_on example_collab
         (RobotKingStatus_init (Some [(''State'', ''STATE_POWER_OFF''), (''Error'', ''ERROR_BRUSH'')])))
   \<and> \<not> fst (is_error example_collab
         (RobotKingStatus_init (Some [(''State'', ''STATE_POWER_OFF''), (''Error'', ''ERROR_BRUSH'')])))"
  using
    is_error_power_precedes [of example_collab
      "RobotKingStatus_init (Some [(''State'', ''STATE_RUNNING''), (''Error'', ''ERROR_BRUSH'')])"]
    is_error_power_precedes [of example_collab
      "RobotKingStatus_init (Some [(''State'', ''STATE_POWER_OFF''), (''Error'', ''ERROR_BRUSH'')])"]
  by (simp add: snapshot_defs example_defs vocabulary_defs)

subsection \<open>Absent run state\<close>

lemma get_run_state_default:
  assumes "\<not> truthy (run_state_memo s)"
    and "\<not> truthy (lookup_enum c (data s) [''State'', ''state''])"
  shows "fst (get_run_state c s) = STATE_ROBOT_KING_POWER_OFF"
  using assms by (simp add: get_run_state_def Let_def)

text \<open>
  Claim C2. For every payload in which the run-state lookup is absent or falsy, the run
  state of the snapshot built on it defaults to the POWER_OFF sentinel, so \<open>is_on\<close> is
  false and \<open>is_run_completed\<close> is true.
\<close>

theorem absent_run_state_is_power_off:
  assumes "\<not> truthy (lookup_enum c d [''State'', ''state''])"
  shows "fst (get_run_state c (RobotKingStatus_init d)) = STATE_ROBOT_KING_POWER_OFF
         \<and> \<not> fst (is_on c (RobotKingStatus_init d))
         \<and> fst (is_run_completed c (RobotKingStatus_init d))"
proof -
  have "fst (get_run_state c (RobotKingStatus_init d)) = STATE_ROBOT_KING_POWER_OFF"
    using assms by (intro get_run_state_default) (simp_all add: RobotKingStatus_init_def truthy_def)
  then show ?thesis
    by (simp add: is_on_fst is_run_completed_fst str_in_self)
qed

theorem absent_run_state_is_power_off_witness:
  "\<not> truthy (lookup_enum example_collab (Some [(''Error'', ''ERROR_BRUSH'')]) [''State'', ''state''])
   \<and> \<not> truthy (lookup_enum example_collab (Some [(''state'', '''')]) [''State'', ''state''])
   \<and> fst (get_run_state example_collab (RobotKingStatus_init (Some [(''Error'', ''ERROR_BRUSH'')])))
       = ''STATE_POWER_OFF''
   \<and> \<not> fst (is_on example_collab (RobotKingStatus_init (Some [(''Error'', ''ERROR_BRUSH'')])))
   \<and> fst (is_run_completed example_collab (RobotKingStatus_init (Some [(''Error'', ''ERROR_BRUSH'')])))
   \<and> \<not> fst (is_on example_collab (RobotKingStatus_init (Some [(''state'', '''')])))"
proof -
  have a: "\<not> truthy (lookup_enum example_collab (Some [(''Error'', ''ERROR_BRUSH'')]) [''State'', ''state''])"
    by (simp add: example_defs truthy_def)
  have b: "\<not> truthy (lookup_enum example_collab (Some [(''state'', '''')]) [''State'', ''state''])"
    by (simp add: example_defs truthy_def)
  show ?thesis
    using a b absent_run_state_is_power_off [OF a] absent_run_state_is_power_off [OF b]
    by (simp add: STATE_ROBOT_KING_POWER_OFF_def)
qed

subsection \<open>Terminal run states\<close>

text \<open>
  Claim C3. For every snapshot whose resolved run-state string contains a TERMINAL
  sentinel (\<open>STATE_END\<close> or \<open>STATE_COMPLETE\<close>) as a substring, with any text before and
  after it, \<open>is_run_completed\<close> is true, whatever \<open>is_on\<close> says.
\<close>

theorem terminal_substring_is_completed:
  assumes "t \<in> set STATE_ROBOT_KING_END"
    and "fst (get_run_state c s) = before @ t @ after"
  shows "fst (is_run_completed c s)"
proof -
  from assms(2) have "str_in t (fst (get_run_state c s))"
    unfolding str_in_iff by blast
  with assms(1) show ?thesis
    unfolding is_run_completed_fst by blast
qed

theorem terminal_substring_is_completed_witness:
  "''STATE_COMPLETE'' \<in> set STATE_ROBOT_KING_END
   \<and> fst (get_run_state example_collab (RobotKingStatus_init (Some [(''State'', ''@RK_STATE_COMPLETE_W'')])))
       = ''@RK_'' @ ''STATE_COMPLETE'' @ ''_W''
   \<and> fst (is_on example_collab (RobotKingStatus_init (Some [(''State'', ''@RK_STATE_COMPLETE_W'')])))
   \<and> fst (is_run_completed example_collab
            (RobotKingStatus_init (Some [(''State'', ''@RK_STATE_COMPLETE_W'')])))"
proof -
  have a: "''STATE_COMPLETE'' \<in> set STATE_ROBOT_KING_END"
    by (simp add: STATE_ROBOT_KING_END_def)
  have b: "fst (get_run_state example_collab
                 (RobotKingStatus_init (Some [(''State'', ''@RK_STATE_COMPLETE_W'')])))
           = ''@RK_'' @ ''STATE_COMPLETE'' @ ''_W''"
    by (simp add: snapshot_defs example_defs)
  have c: "fst (is_on example_collab (RobotKingStatus_init (Some [(''State'', ''@RK_STATE_COMPLETE_W'')])))"
    unfolding is_on_fst b by (simp add: STATE_ROBOT_KING_POWER_OFF_def)
  show ?thesis
    using a b c terminal_substring_is_completed [OF a b] by simp
qed

subsection \<open>The public run-state feature\<close>

lemma run_state_fst:
  "fst (run_state c s) =
     (if str_in STATE_ROBOT_KING_POWER_OFF (fst (get_run_state c s)) then StateOptions_NONE c
      else fst (get_run_state c s))"
  by (simp add: run_state_def update_feature_def split_beta Let_def)

text \<open>
  Claim C9. For every snapshot whose resolved run-state string is not itself the NONE
  sentinel, the public \<open>run_state\<close> feature reports NONE if and only if \<open>is_on\<close> is
  false: both are decided by the same substring test on the memoised run state.
\<close>

theorem run_state_none_iff_off:
  assumes "fst (get_run_state c s) \<noteq> StateOptions_NONE c"
  shows "fst (run_state c s) = StateOptions_NONE c \<longleftrightarrow> \<not> fst (is_on c s)"
  using assms by (simp add: run_state_fst is_on_fst)

theorem run_state_none_iff_off_witness:
  "fst (get_run_state example_collab (RobotKingStatus_init (Some [(''State'', ''STATE_RUNNING'')])))
     \<noteq> StateOptions_NONE example_collab
   \<and> fst (run_state example_collab (RobotKingStatus_init (Some [(''State'', ''STATE_RUNNING'')])))
       = ''STATE_RUNNING''
   \<and> fst (is_on example_collab (RobotKingStatus_init (Some [(''State'', ''STATE_RUNNING'')])))
   \<and> fst (get_run_state example_collab (RobotKingStatus_init None)) \<noteq> StateOptions_NONE example_collab
   \<and> fst (run_state example_collab (RobotKingStatus_init None)) = StateOptions_NONE example_collab
   \<and> \<not> fst (is_on example_collab (RobotKingStatus_init None))"
proof -
  have a: "fst (get_run_state example_collab (RobotKingStatus_init (Some [(''State'', ''STATE_RUNNING'')])))
             \<noteq> StateOptions_NONE example_collab"
    by (simp add: snapshot_defs example_defs)
  have b: "fst (get_run_state example_collab (RobotKingStatus_init None))
             \<noteq> StateOptions_NONE example_collab"
    by (simp add: snapshot_defs example_defs vocabulary_defs)
  have c: "fst (run_state example_collab (RobotKingStatus_init (Some [(''State'', ''STATE_RUNNING'')])))
             = ''STATE_RUNNING''"
    by (simp add: snapshot_defs example_defs vocabulary_defs)
  have d: "fst (run_state example_collab (RobotKingStatus_init None)) = StateOptions_NONE example_collab"
    by (simp add: snapshot_defs example_defs vocabulary_defs)
  show ?thesis
    using a b c d run_state_none_iff_off [OF a] run_state_none_iff_off [OF b]
    by (simp add: example_collab_def)
qed

subsection \<open>Polling\<close>

text \<open>
  Claim C8. When the collaborator returns nothing (\<open>None\<close> or an empty payload), \<open>poll\<close>
  returns \<open>None\<close> and the controller, with its stored snapshot, is exactly as before
  the call; a fresh snapshot is built and stored only when a non-empty payload is
  returned.
\<close>

theorem poll_empty_keeps_snapshot:
  "(res = None \<or> res = Some [] \<longrightarrow> poll dev res = (None, dev)) \<and>
   (res \<noteq> None \<and> res \<noteq> Some [] \<longrightarrow>
      poll dev res = (Some (RobotKingStatus_init res), dev\<lparr>status := RobotKingStatus_init res\<rparr>))"
  by (auto simp: poll_def not_res_def Let_def split: option.splits)

theorem poll_empty_keeps_snapshot_witness:
  "poll (example_device (Some [(''State'', ''STATE_RUNNING'')]) True) None
     = (None, example_device (Some [(''State'', ''STATE_RUNNING'')]) True)
   \<and> poll (example_device (Some [(''State'', ''STATE_RUNNING'')]) True) (Some [])
     = (None, example_device (Some [(''State'', ''STATE_RUNNING'')]) True)
   \<and> fst (poll (example_device None True) (Some [(''State'', ''STATE_END'')]))
     = Some (RobotKingStatus_init (Some [(''State'', ''STATE_END'')]))
   \<and> status (snd (poll (example_device None True) (Some [(''State'', ''STATE_END'')])))
     = RobotKingStatus_init (Some [(''State'', ''STATE_END'')])"
  using
    poll_empty_keeps_snapshot [of None "example_device (Some [(''State'', ''STATE_RUNNING'')]) True"]
    poll_empty_keeps_snapshot [of "Some []" "example_device (Some [(''State'', ''STATE_RUNNING'')]) True"]
    poll_empty_keeps_snapshot [of "Some [(''State'', ''STATE_END'')]" "example_device None True"]
  by simp

subsection \<open>Waking the device up\<close>

text \<open>
  Claim C4. For every controller that is not in standby, \<open>wake_up\<close> raises
  \<open>InvalidDeviceStatus\<close> and dispatches no command: the controller after the call
  (standby flag, stored snapshot and the log of dispatched commands) is the one
  before it.
\<close>

theorem wake_up_not_standby_raises:
  assumes "\<not> stand_by dev"
  shows "wake_up c dev = (Inl InvalidDeviceStatus, dev)"
  using assms by (simp add: wake_up_def)

theorem wake_up_not_standby_raises_witness:
  "\<not> stand_by (example_device (Some [(''State'', ''STATE_RUNNING'')]) False)
   \<and> wake_up example_collab (example_device (Some [(''State'', ''STATE_RUNNING'')]) False)
       = (Inl InvalidDeviceStatus, example_device (Some [(''State'', ''STATE_RUNNING'')]) False)
   \<and> sent (snd (wake_up example_collab (example_device (Some [(''State'', ''STATE_RUNNING'')]) False)))
       = []"
proof -
  have a: "\<not> stand_by (example_device (Some [(''State'', ''STATE_RUNNING'')]) False)"
    by (simp add: example_device_def)
  show ?thesis
    using a wake_up_not_standby_raises [OF a, of example_collab]
    by (simp add: example_device_def)
qed

text \<open>
  Claim C10. When the controller is in standby and the dispatch call inside \<open>wake_up\<close>
  raises, \<open>wake_up\<close> raises the same error and the controller's state is unchanged:
  standby is still true and the stored snapshot is not updated (only the dispatch log
  records the attempted command).
\<close>

theorem wake_up_dispatch_failure_keeps_state:
  assumes "stand_by dev"
    and "get_cmd_keys c CMD_WAKE_UP = Some (k0, k1, k2)"
    and "device_set c k0 k1 k2 = Some e"
  shows "fst (wake_up c dev) = Inl e
         \<and> stand_by (snd (wake_up c dev))
         \<and> status (snd (wake_up c dev)) = status dev
         \<and> snd (wake_up c dev) = dev\<lparr>sent := sent dev @ [(k0, k1, k2)]\<rparr>"
  using assms by (simp add: wake_up_def Let_def)

theorem wake_up_dispatch_failure_keeps_state_witness:
  "stand_by (example_device None True)
   \<and> get_cmd_keys rejecting_collab CMD_WAKE_UP = Some (''Set'', Some ''Wakeup'', None)
   \<and> device_set rejecting_collab ''Set'' (Some ''Wakeup'') None = Some (CollaboratorError ''rejected'')
   \<and> fst (wake_up rejecting_collab (example_device None True)) = Inl (CollaboratorError ''rejected'')
   \<and> stand_by (snd (wake_up rejecting_collab (example_device None True)))
   \<and> status (snd (wake_up rejecting_collab (example_device None True))) = RobotKingStatus_init None"
proof -
  have a: "stand_by (example_device None True)"
    by (simp add: example_device_def)
  have b: "get_cmd_keys rejecting_collab CMD_WAKE_UP = Some (''Set'', Some ''Wakeup'', None)"
    by (simp add: get_cmd_keys_def CMD_WAKE_UP_def example_defs)
  have c: "device_set rejecting_collab ''Set'' (Some ''Wakeup'') None = Some (CollaboratorError ''rejected'')"
    by (simp add: example_defs)
  show ?thesis
    using a b c wake_up_dispatch_failure_keeps_state [OF a b c]
    by (simp add: example_device_def)
qed

subsection \<open>Memoisation\<close>

lemma truthy_Some: "truthy (Some x) = (x \<noteq> [])"
  by (simp add: truthy_def)

lemma run_state_snd:
  "run_state_memo (snd (run_state c s)) = Some (fst (get_run_state c s))"
  "data (snd (run_state c s)) = data s"
  "error_memo (snd (run_state c s)) = error_memo s"
  "lookups (snd (run_state c s)) = lookups (snd (get_run_state c s))"
  by (simp_all add: run_state_def update_feature_def split_beta Let_def
        get_run_state_memo get_run_state_frame)

lemma run_state_twice: "fst (run_state c (snd (run_state c s))) = fst (run_state c s)"
proof -
  have "get_run_state c (snd (run_state c s)) = (fst (get_run_state c s), snd (run_state c s))"
    by (rule get_run_state_hit) (simp_all add: run_state_snd get_run_state_nonempty)
  then show ?thesis
    by (simp add: run_state_fst)
qed

lemma run_state_twice_lookups:
  "lookups (snd (run_state c (snd (run_state c s)))) = lookups (snd (run_state c s))"
  by (simp add: run_state_snd(4) [of c "snd (run_state c s)"] get_run_state_lookups
        run_state_snd(1) truthy_Some get_run_state_nonempty)

lemma error_msg_fst:
  "fst (error_msg c s) =
     (if fst (is_error c s) then fst (get_error c s) else StateOptions_NONE c)"
proof -
  have "fst (get_error c (snd (get_error c (snd (get_run_state c s))))) = fst (get_error c s)"
    unfolding get_error_again fst_conv
    by (rule get_error_cong) (simp_all add: get_run_state_frame)
  then show ?thesis
    by (simp add: error_msg_def update_feature_def split_beta is_error_snd is_error_fst)
qed

lemma error_msg_snd:
  "run_state_memo (snd (error_msg c s)) = Some (fst (get_run_state c s))"
  "data (snd (error_msg c s)) = data s"
  "error_memo (snd (error_msg c s)) =
     (if fst (is_on c s) then Some (fst (get_error c s)) else error_memo s)"
proof -
  have e: "fst (get_error c (snd (get_run_state c s))) = fst (get_error c s)"
    by (rule get_error_cong) (simp_all add: get_run_state_frame)
  show "run_state_memo (snd (error_msg c s)) = Some (fst (get_run_state c s))"
    by (simp add: error_msg_def update_feature_def split_beta is_error_snd
          get_error_frame get_run_state_memo)
  show "data (snd (error_msg c s)) = data s"
    by (simp add: error_msg_def update_feature_def split_beta is_error_snd
          get_error_frame get_run_state_frame)
  show "error_memo (snd (error_msg c s)) =
     (if fst (is_on c s) then Some (fst (get_error c s)) else error_memo s)"
    by (simp add: error_msg_def update_feature_def split_beta is_error_snd is_error_fst
          get_error_again get_error_memo get_run_state_frame e)
qed

lemma error_msg_lookups:
  "lookups (snd (error_msg c s)) =
     (if fst (is_on c s) then lookups (snd (get_error c (snd (get_run_state c s))))
      else lookups (snd (get_run_state c s)))"
  by (simp add: error_msg_def update_feature_def split_beta is_error_snd is_error_fst
        get_error_again)

lemma error_msg_twice: "fst (error_msg c (snd (error_msg c s))) = fst (error_msg c s)"
proof -
  let ?s1 = "snd (error_msg c s)"
  have r: "get_run_state c ?s1 = (fst (get_run_state c s), ?s1)"
    by (rule get_run_state_hit) (simp_all add: error_msg_snd get_run_state_nonempty)
  then have on: "fst (is_on c ?s1) = fst (is_on c s)"
    by (simp add: is_on_fst)
  have e: "fst (is_on c s) \<Longrightarrow> fst (get_error c ?s1) = fst (get_error c s)"
  proof -
    assume "fst (is_on c s)"
    then have "get_error c ?s1 = (fst (get_error c s), ?s1)"
      by (intro get_error_hit) (simp_all add: error_msg_snd get_error_nonempty)
    then show ?thesis by simp
  qed
  show ?thesis
    using on e by (auto simp: error_msg_fst is_error_fst)
qed

lemma error_msg_twice_lookups:
  "lookups (snd (error_msg c (snd (error_msg c s)))) = lookups (snd (error_msg c s))"
proof -
  let ?s1 = "snd (error_msg c s)"
  have r: "get_run_state c ?s1 = (fst (get_run_state c s), ?s1)"
    by (rule get_run_state_hit) (simp_all add: error_msg_snd get_run_state_nonempty)
  then have on: "fst (is_on c ?s1) = fst (is_on c s)"
    by (simp add: is_on_fst)
  show ?thesis
  proof (cases "fst (is_on c s)")
    case True
    then have "get_error c ?s1 = (fst (get_error c s), ?s1)"
      by (intro get_error_hit) (simp_all add: error_msg_snd get_error_nonempty)
    with True on r show ?thesis
      by (simp add: error_msg_lookups [of c ?s1])
  next
    case False
    with on r show ?thesis
      by (simp add: error_msg_lookups [of c ?s1])
  qed
qed

text \<open>
  Claim C7. For every snapshot, reading \<open>run_state\<close> (or \<open>error_msg\<close>) twice with no
  \<open>update_status\<close> in between returns the same value both times; the second read makes
  no lookup at all, and the first read makes at most one enumeration lookup and at most
  one reference lookup, because the resolved values are memoised.
\<close>

theorem reads_are_memoised:
  "fst (run_state c (snd (run_state c s))) = fst (run_state c s)
   \<and> lookups (snd (run_state c (snd (run_state c s)))) = lookups (snd (run_state c s))
   \<and> lookups (snd (run_state c s))
       \<in> {lookups s, lookups s @ [LookupEnum [''State'', ''state'']]}
   \<and> fst (error_msg c (snd (error_msg c s))) = fst (error_msg c s)
   \<and> lookups (snd (error_msg c (snd (error_msg c s)))) = lookups (snd (error_msg c s))
   \<and> lookups (snd (error_msg c s))
       \<in> {lookups s,
          lookups s @ [LookupEnum [''State'', ''state'']],
          lookups s @ [LookupReference [''Error'', ''error''] ''title''],
          lookups s @ [LookupEnum [''State'', ''state''],
                       LookupReference [''Error'', ''error''] ''title'']}"
proof -
  have a: "lookups (snd (run_state c s))
       \<in> {lookups s, lookups s @ [LookupEnum [''State'', ''state'']]}"
    by (simp add: run_state_snd get_run_state_lookups)
  have b: "lookups (snd (error_msg c s))
       \<in> {lookups s,
          lookups s @ [LookupEnum [''State'', ''state'']],
          lookups s @ [LookupReference [''Error'', ''error''] ''title''],
          lookups s @ [LookupEnum [''State'', ''state''],
                       LookupReference [''Error'', ''error''] ''title'']}"
    by (simp add: error_msg_lookups get_error_lookups get_run_state_lookups get_run_state_frame)
  show ?thesis
    using a b
    by (simp only: run_state_twice run_state_twice_lookups error_msg_twice
          error_msg_twice_lookups simp_thms)
qed

theorem reads_are_memoised_witness:
  "fst (error_msg example_collab
         (RobotKingStatus_init (Some [(''State'', ''STATE_RUNNING''), (''Error'', ''ERROR_BRUSH'')])))
     = ''ERROR_BRUSH''
   \<and> fst (error_msg example_collab running_with_error) = ''ERROR_BRUSH''
   \<and> lookups running_with_error
       = [LookupEnum [''State'', ''state''], LookupReference [''Error'', ''error''] ''title'']
   \<and> lookups (snd (error_msg example_collab running_with_error)) = lookups running_with_error
   \<and> fst (run_state example_collab running_with_error) = ''STATE_RUNNING''
   \<and> lookups (snd (run_state example_collab running_with_error)) = lookups running_with_error"
proof -
  have a: "fst (error_msg example_collab
         (RobotKingStatus_init (Some [(''State'', ''STATE_RUNNING''), (''Error'', ''ERROR_BRUSH'')])))
     = ''ERROR_BRUSH''"
    by (simp add: snapshot_defs example_defs vocabulary_defs)
  have b: "lookups running_with_error
       = [LookupEnum [''State'', ''state''], LookupReference [''Error'', ''error''] ''title'']"
    by (simp add: running_with_error_def snapshot_defs example_defs vocabulary_defs)
  have c: "fst (run_state example_collab running_with_error) = ''STATE_RUNNING''"
    by (simp add: running_with_error_def snapshot_defs example_defs vocabulary_defs)
  have d: "lookups (snd (run_state example_collab running_with_error)) = lookups running_with_error"
    by (simp add: running_with_error_def snapshot_defs example_defs vocabulary_defs)
  show ?thesis
    using a b c d
      reads_are_memoised [of example_collab
        "RobotKingStatus_init (Some [(''State'', ''STATE_RUNNING''), (''Error'', ''ERROR_BRUSH'')])"]
    by (simp add: running_with_error_def)
qed

subsection \<open>Targeted updates\<close>

lemma update_status_snd:
  "snd (update_status c s key val) =
     (if fst (super_update_status c (data s) key val)
      then s\<lparr>data := snd (super_update_status c (data s) key val), run_state_memo := None\<rparr>
      else s\<lparr>data := snd (super_update_status c (data s) key val)\<rparr>)"
  by (simp add: update_status_def split_beta Let_def)

lemma update_status_fst:
  "fst (update_status c s key val) = fst (super_update_status c (data s) key val)"
  by (simp add: update_status_def split_beta Let_def)


lemma error_msg_cong:
  assumes "truthy (error_memo s)" and "error_memo s' = error_memo s"
    and "fst (is_on c s') = fst (is_on c s)"
  shows "fst (error_msg c s') = fst (error_msg c s)"
proof -
  from assms(1) obtain e where e: "error_memo s = Some e" "e \<noteq> []"
    by (auto simp: truthy_def split: option.splits)
  then have "get_error c s = (e, s)" by (intro get_error_hit)
  moreover from e assms(2) have "get_error c s' = (e, s')" by (intro get_error_hit) simp_all
  ultimately show ?thesis
    using assms(3) by (simp add: error_msg_fst is_error_fst)
qed

text \<open>
  Claim C6, as stated, fails: \<open>error_msg\<close> is gated on \<open>is_on\<close>, so a write that switches
  the run state from running to off changes \<open>error_msg\<close> from the error string to NONE,
  although the error memo is untouched.
\<close>

theorem update_status_changes_error_msg:
  "fst (update_status example_collab running_with_error POWER_STATUS_KEY ''STATE_POWER_OFF'')
   \<and> error_memo running_with_error = Some ''ERROR_BRUSH''
   \<and> fst (error_msg example_collab running_with_error) = ''ERROR_BRUSH''
   \<and> error_memo (snd (update_status example_collab running_with_error
                         POWER_STATUS_KEY ''STATE_POWER_OFF'')) = Some ''ERROR_BRUSH''
   \<and> fst (error_msg example_collab
            (snd (update_status example_collab running_with_error
                    POWER_STATUS_KEY ''STATE_POWER_OFF''))) = ''-''"
  by (simp add: running_with_error_def snapshot_defs example_defs vocabulary_defs)

text \<open>
  Claim C6, amended. For every snapshot, an \<open>update_status\<close> call whose underlying write
  reports a change returns true and, besides storing the written payload, clears the
  run-state memo only: the next \<open>run_state\<close> read is the one a fresh snapshot of the
  updated store gives, while the error memo, and with it a previously resolved error
  string, is unchanged; \<open>error_msg\<close> keeps its value as long as \<open>is_on\<close> reads the same
  before and after the call. A call whose write reports no change returns false and
  clears neither memo.
\<close>

theorem update_status_clears_run_state_memo_only:
  "(fst (super_update_status c (data s) key val) \<longrightarrow>
      fst (update_status c s key val)
      \<and> snd (update_status c s key val) =
          s\<lparr>data := snd (super_update_status c (data s) key val), run_state_memo := None\<rparr>
      \<and> error_memo (snd (update_status c s key val)) = error_memo s
      \<and> fst (run_state c (snd (update_status c s key val))) =
          fst (run_state c (RobotKingStatus_init (snd (super_update_status c (data s) key val))))
      \<and> (truthy (error_memo s) \<longrightarrow>
           fst (get_error c (snd (update_status c s key val))) = fst (get_error c s))
      \<and> (truthy (error_memo s)
           \<and> fst (is_on c (snd (update_status c s key val))) = fst (is_on c s) \<longrightarrow>
           fst (error_msg c (snd (update_status c s key val))) = fst (error_msg c s)))
   \<and> (\<not> fst (super_update_status c (data s) key val) \<longrightarrow>
      \<not> fst (update_status c s key val)
      \<and> run_state_memo (snd (update_status c s key val)) = run_state_memo s
      \<and> error_memo (snd (update_status c s key val)) = error_memo s)"
proof (cases "fst (super_update_status c (data s) key val)")
  case True
  let ?s' = "snd (update_status c s key val)"
  let ?d' = "snd (super_update_status c (data s) key val)"
  have s': "?s' = s\<lparr>data := ?d', run_state_memo := None\<rparr>"
    using True by (simp add: update_status_snd)
  have em: "error_memo ?s' = error_memo s"
    by (simp add: s')
  have "fst (get_run_state c ?s') = fst (get_run_state c (RobotKingStatus_init ?d'))"
    by (rule get_run_state_cong) (simp_all add: s' RobotKingStatus_init_def)
  then have rs: "fst (run_state c ?s') = fst (run_state c (RobotKingStatus_init ?d'))"
    by (simp add: run_state_fst)
  have ge: "fst (get_error c ?s') = fst (get_error c s)" if "truthy (error_memo s)"
  proof -
    from that obtain e where e: "error_memo s = Some e" "e \<noteq> []"
      by (auto simp: truthy_def split: option.splits)
    then have "get_error c s = (e, s)" by (intro get_error_hit)
    moreover from e em have "get_error c ?s' = (e, ?s')" by (intro get_error_hit) simp_all
    ultimately show ?thesis by simp
  qed
  have msg: "fst (error_msg c ?s') = fst (error_msg c s)"
    if "truthy (error_memo s)" "fst (is_on c ?s') = fst (is_on c s)"
    using that em by (intro error_msg_cong)
  show ?thesis
    using True s' em rs ge msg by (simp add: update_status_fst)
next
  case False
  then show ?thesis
    by (simp add: update_status_fst update_status_snd)
qed

theorem update_status_clears_run_state_memo_only_witness:
  "fst (super_update_status example_collab (data running_with_error) POWER_STATUS_KEY ''STATE_END'')
   \<and> run_state_memo running_with_error = Some ''STATE_RUNNING''
   \<and> run_state_memo (snd (update_status example_collab running_with_error
                             POWER_STATUS_KEY ''STATE_END'')) = None
   \<and> fst (run_state example_collab
            (snd (update_status example_collab running_with_error POWER_STATUS_KEY ''STATE_END'')))
       = ''STATE_END''
   \<and> error_memo (snd (update_status example_collab running_with_error
                         POWER_STATUS_KEY ''STATE_END'')) = Some ''ERROR_BRUSH''
   \<and> truthy (error_memo running_with_error)
   \<and> fst (is_on example_collab
            (snd (update_status example_collab running_with_error POWER_STATUS_KEY ''STATE_END'')))
       = fst (is_on example_collab running_with_error)
   \<and> fst (error_msg example_collab
            (snd (update_status example_collab running_with_error POWER_STATUS_KEY ''STATE_END'')))
       = ''ERROR_BRUSH''
   \<and> \<not> fst (super_update_status example_collab (data running_with_error)
               POWER_STATUS_KEY ''STATE_RUNNING'')
   \<and> run_state_memo (snd (update_status example_collab running_with_error
                             POWER_STATUS_KEY ''STATE_RUNNING'')) = Some ''STATE_RUNNING''"
proof -
  let ?c = example_collab
  let ?s = running_with_error
  have a: "fst (super_update_status ?c (data ?s) POWER_STATUS_KEY ''STATE_END'')"
    by (simp add: running_with_error_def snapshot_defs example_defs vocabulary_defs)
  have b: "\<not> fst (super_update_status ?c (data ?s) POWER_STATUS_KEY ''STATE_RUNNING'')"
    by (simp add: running_with_error_def snapshot_defs example_defs vocabulary_defs)
  have c: "run_state_memo ?s = Some ''STATE_RUNNING''"
    by (simp add: running_with_error_def snapshot_defs example_defs vocabulary_defs)
  have d: "error_memo ?s = Some ''ERROR_BRUSH''"
    by (simp add: running_with_error_def snapshot_defs example_defs vocabulary_defs)
  have e: "fst (run_state ?c (RobotKingStatus_init
             (snd (super_update_status ?c (data ?s) POWER_STATUS_KEY ''STATE_END''))))
           = ''STATE_END''"
    by (simp add: running_with_error_def snapshot_defs example_defs vocabulary_defs)
  note changed =
    update_status_clears_run_state_memo_only [of ?c ?s POWER_STATUS_KEY "''STATE_END''"]
  note same =
    update_status_clears_run_state_memo_only [of ?c ?s POWER_STATUS_KEY "''STATE_RUNNING''"]
  from changed a
  have p: "snd (update_status ?c ?s POWER_STATUS_KEY ''STATE_END'') =
             ?s\<lparr>data := snd (super_update_status ?c (data ?s) POWER_STATUS_KEY ''STATE_END''),
                 run_state_memo := None\<rparr>"
    and q: "fst (run_state ?c (snd (update_status ?c ?s POWER_STATUS_KEY ''STATE_END''))) =
             fst (run_state ?c (RobotKingStatus_init
               (snd (super_update_status ?c (data ?s) POWER_STATUS_KEY ''STATE_END''))))"
    and r: "error_memo (snd (update_status ?c ?s POWER_STATUS_KEY ''STATE_END'')) = error_memo ?s"
    by blast+
  from same b
  have u: "run_state_memo (snd (update_status ?c ?s POWER_STATUS_KEY ''STATE_RUNNING''))
             = run_state_memo ?s"
    by blast
  have t: "truthy (error_memo ?s)"
    unfolding d by (simp add: truthy_def)
  have on: "fst (is_on ?c (snd (update_status ?c ?s POWER_STATUS_KEY ''STATE_END'')))
              = fst (is_on ?c ?s)"
    by (simp add: running_with_error_def snapshot_defs example_defs vocabulary_defs)
  have m: "fst (error_msg ?c ?s) = ''ERROR_BRUSH''"
    by (simp add: running_with_error_def snapshot_defs example_defs vocabulary_defs)
  from changed a t on
  have "fst (error_msg ?c (snd (update_status ?c ?s POWER_STATUS_KEY ''STATE_END'')))
          = fst (error_msg ?c ?s)"
    by blast
  then have g3: "fst (error_msg ?c (snd (update_status ?c ?s POWER_STATUS_KEY ''STATE_END'')))
          = ''ERROR_BRUSH''"
    unfolding m .
  have g1: "run_state_memo (snd (update_status ?c ?s POWER_STATUS_KEY ''STATE_END'')) = None"
    unfolding p by simp
  have g2: "fst (run_state ?c (snd (update_status ?c ?s POWER_STATUS_KEY ''STATE_END'')))
              = ''STATE_END''"
    unfolding q by (rule e)
  show ?thesis
    using a b c g1 g2 g3 t on r [unfolded d] u [unfolded c] by blast
qed

subsection \<open>A successful wake-up\<close>







end
